theory Spec2Isabelle
  imports Complex_Main
begin

section \<open>Values crossing the API boundary\<close>

text \<open>
  The front end receives employee objects as parsed JSON. A field of type \<open>number\<close> is
  modelled as \<open>real option\<close>: \<open>Some r\<close> is the (finite) number \<open>r\<close>, \<open>None\<close> is a field that
  is absent from the object (\<open>undefined\<close> when read). Arithmetic on amounts is exact;
  the rounding of IEEE doubles is outside the model. Where the code computes on operands
  that may be \<open>undefined\<close>, or divides, the result is a \<open>number\<close>, which has the
  non-finite values of JavaScript.
\<close>

datatype number = Num real | NaN | PosInfinity | NegInfinity

text \<open>\<open>ToNumber\<close> of a field value: \<open>undefined\<close> becomes \<open>NaN\<close>.\<close>

definition toNumber :: "real option \<Rightarrow> number" where
  "toNumber v = (case v of None \<Rightarrow> NaN | Some r \<Rightarrow> Num r)"

text \<open>The binary operators \<open>-\<close> and \<open>/\<close> of JavaScript (signed zeros are not modelled).\<close>

fun js_sub :: "number \<Rightarrow> number \<Rightarrow> number" where
  "js_sub (Num a) (Num b) = Num (a - b)"
| "js_sub NaN y = NaN"
| "js_sub x NaN = NaN"
| "js_sub PosInfinity PosInfinity = NaN"
| "js_sub NegInfinity NegInfinity = NaN"
| "js_sub PosInfinity y = PosInfinity"
| "js_sub NegInfinity y = NegInfinity"
| "js_sub (Num a) PosInfinity = NegInfinity"
| "js_sub (Num a) NegInfinity = PosInfinity"

fun js_div :: "number \<Rightarrow> number \<Rightarrow> number" where
  "js_div (Num a) (Num b) =
     (if b = 0 then (if a = 0 then NaN else if 0 < a then PosInfinity else NegInfinity)
      else Num (a / b))"
| "js_div NaN y = NaN"
| "js_div x NaN = NaN"
| "js_div (Num a) y = Num 0"
| "js_div PosInfinity (Num b) = (if 0 \<le> b then PosInfinity else NegInfinity)"
| "js_div NegInfinity (Num b) = (if 0 \<le> b then NegInfinity else PosInfinity)"
| "js_div PosInfinity PosInfinity = NaN"
| "js_div PosInfinity NegInfinity = NaN"
| "js_div NegInfinity PosInfinity = NaN"
| "js_div NegInfinity NegInfinity = NaN"

text \<open>Truthiness of a numeric field, and the idiom \<open>field || 0\<close>.\<close>

definition truthy :: "real option \<Rightarrow> bool" where
  "truthy v = (case v of None \<Rightarrow> False | Some r \<Rightarrow> r \<noteq> 0)"

definition orZero :: "real option \<Rightarrow> real" where
  "orZero v = (case v of None \<Rightarrow> 0 | Some r \<Rightarrow> if r \<noteq> 0 then r else 0)"

text \<open>
  \<open>String.prototype.toUpperCase\<close>: the letters \<open>a\<close> to \<open>z\<close> go to \<open>A\<close> to \<open>Z\<close>, every other
  character stays (the special casing of characters outside ASCII is not modelled).
\<close>

definition toUpperCaseChar :: "char \<Rightarrow> char" where
  "toUpperCaseChar c =
     (case map_of (zip ''abcdefghijklmnopqrstuvwxyz'' ''ABCDEFGHIJKLMNOPQRSTUVWXYZ'') c of
        None \<Rightarrow> c
      | Some u \<Rightarrow> u)"

definition toUpperCase :: "string \<Rightarrow> string" where
  "toUpperCase s = map toUpperCaseChar s"


section \<open>Types of the API client\<close>

datatype PerformanceBand = elite | strong | stable | risk

datatype ExperienceBand = principal | senior | mid | junior

datatype DecisionAction = FIRE | PROMOTE | DECREASE_SALARY | NO_CHANGE

text \<open>
  \<open>DecisionAction\<close> is a union of string literals; \<open>spelling\<close> gives the string each
  value is at run time.
\<close>

fun spelling :: "DecisionAction \<Rightarrow> string" where
  "spelling FIRE = ''FIRE''"
| "spelling PROMOTE = ''PROMOTE''"
| "spelling DECREASE_SALARY = ''DECREASE_SALARY''"
| "spelling NO_CHANGE = ''NO_CHANGE''"

text \<open>
  Of \<open>Suggestion\<close> and \<open>Employee\<close> the fields the modelled code reads are kept; the
  preformatted display strings, the market salary range, the storage key \<open>_id\<close> and
  \<open>lastAnalyzed\<close> are left out.
\<close>

record Suggestion =
  action :: string
  confidence :: "real option"
  reasoning :: string
  suggestedSalary :: "real option"
  recommended_change_percent :: "real option"

record Employee =
  ssid :: string
  name :: string
  role :: string
  performance :: PerformanceBand
  experience :: ExperienceBand
  salary :: "real option"
  revenue :: "real option"
  status :: string
  suggestion :: "Suggestion option"


section \<open>The front end (App.tsx)\<close>

datatype UIDecisionAction = increase | decrease | keep | fire

text \<open>
  \<open>mapBackendAction(action?: string)\<close>: \<open>!action\<close> holds for \<open>undefined\<close> and for the
  empty string.
\<close>

definition mapBackendAction :: "string option \<Rightarrow> UIDecisionAction" where
  "mapBackendAction a =
     (case a of
        None \<Rightarrow> keep
      | Some s \<Rightarrow>
          if s = [] then keep
          else let u = toUpperCase s in
            if u = ''FIRE'' then fire
            else if u = ''PROMOTE'' then increase
            else if u = ''DECREASE_SALARY'' then decrease
            else keep)"

fun mapUIActionToBackend :: "UIDecisionAction \<Rightarrow> DecisionAction" where
  "mapUIActionToBackend fire = FIRE"
| "mapUIActionToBackend increase = PROMOTE"
| "mapUIActionToBackend decrease = DECREASE_SALARY"
| "mapUIActionToBackend keep = NO_CHANGE"

text \<open>
  \<open>selectedEmployee\<close>: \<open>employees.find(emp => emp.ssid === selectedEmployeeId) ?? employees[0]\<close>,
  which is \<open>undefined\<close> for an empty list.
\<close>

definition selectedEmployee :: "Employee list \<Rightarrow> string option \<Rightarrow> Employee option" where
  "selectedEmployee employees selectedEmployeeId =
     (case find (\<lambda>emp. Some (ssid emp) = selectedEmployeeId) employees of
        Some emp \<Rightarrow> Some emp
      | None \<Rightarrow> (case employees of [] \<Rightarrow> None | emp # rest \<Rightarrow> Some emp))"

text \<open>The object \<open>selectedDecision\<close> computes; absent keys are \<open>None\<close>.\<close>

record Decision =
  action :: UIDecisionAction
  reason :: string
  confidence :: real
  profitability :: real
  margin :: number
  suggestedSalary :: "real option"
  changePercent :: "real option"

text \<open>
  The branch taken when there is no suggestion (\<open>!selectedEmployee?.suggestion\<close>) divides
  \<open>revenue - salary\<close> with the fields as they are; the other branch divides the profit
  computed from the \<open>|| 0\<close> values.
\<close>

definition noAnalysis :: "Employee option \<Rightarrow> Decision" where
  "noAnalysis sel =
     \<lparr> Decision.action = keep,
       reason = ''No analysis performed yet. Run analysis to get AI recommendations.'',
       Decision.confidence = 0,
       profitability =
         (case sel of
            None \<Rightarrow> 0
          | Some emp \<Rightarrow> orZero (revenue emp) - orZero (salary emp)),
       Decision.margin =
         (case sel of
            None \<Rightarrow> Num 0
          | Some emp \<Rightarrow>
              if truthy (revenue emp)
              then js_div (js_sub (toNumber (revenue emp)) (toNumber (salary emp)))
                     (toNumber (revenue emp))
              else Num 0),
       Decision.suggestedSalary = None,
       changePercent = None \<rparr>"

definition selectedDecision :: "Employee option \<Rightarrow> Decision" where
  "selectedDecision sel =
     (case sel of
        None \<Rightarrow> noAnalysis sel
      | Some emp \<Rightarrow>
          (case suggestion emp of
             None \<Rightarrow> noAnalysis sel
           | Some sg \<Rightarrow>
               (let profit = orZero (revenue emp) - orZero (salary emp);
                    m = (if truthy (revenue emp)
                         then js_div (Num profit) (toNumber (revenue emp))
                         else Num 0)
                in \<lparr> Decision.action = mapBackendAction (Some (Suggestion.action sg)),
                     reason = (if reasoning sg = [] then ''AI analysis complete.''
                               else reasoning sg),
                     Decision.confidence = orZero (Suggestion.confidence sg),
                     profitability = profit,
                     Decision.margin = m,
                     Decision.suggestedSalary = Suggestion.suggestedSalary sg,
                     changePercent = recommended_change_percent sg \<rparr>)))"

text \<open>\<open>orgSummary\<close>: a reduction over all of \<open>employees\<close>, then the margin of the totals.\<close>

record Totals =
  atRisk :: nat
  totalSalary :: real
  totalRevenue :: real
  netProfit :: real

record OrgSummary = Totals +
  margin :: number

definition orgSummary_step :: "Totals \<Rightarrow> Employee \<Rightarrow> Totals" where
  "orgSummary_step acc emp =
     (let sal = orZero (salary emp);
          rev = orZero (revenue emp);
          profit = rev - sal;
          acc1 = (if profit < 0 then acc\<lparr>atRisk := atRisk acc + 1\<rparr> else acc)
      in acc1\<lparr> totalSalary := totalSalary acc1 + sal,
               totalRevenue := totalRevenue acc1 + rev,
               netProfit := netProfit acc1 + profit \<rparr>)"

definition orgSummary :: "Employee list \<Rightarrow> OrgSummary" where
  "orgSummary employees =
     (let totals = foldl orgSummary_step
            \<lparr> atRisk = 0, totalSalary = 0, totalRevenue = 0, netProfit = 0 \<rparr> employees
      in \<lparr> atRisk = atRisk totals,
           totalSalary = totalSalary totals,
           totalRevenue = totalRevenue totals,
           netProfit = netProfit totals,
           margin = (if totalRevenue totals = 0 then Num 0
                     else js_div (Num (netProfit totals)) (Num (totalRevenue totals))) \<rparr>)"

text \<open>
  The rows of the employee table:
  \<open>employees.filter(emp => emp.status !== 'FIRED').map(...)\<close>, with the values each row
  computes.
\<close>

record Row =
  employee :: Employee
  profit :: real
  margin :: number
  action :: UIDecisionAction

definition employeeRow :: "Employee \<Rightarrow> Row" where
  "employeeRow emp =
     (let p = orZero (revenue emp) - orZero (salary emp)
      in \<lparr> employee = emp,
           profit = p,
           Row.margin = (if truthy (revenue emp) then js_div (Num p) (toNumber (revenue emp))
                         else Num 0),
           Row.action = mapBackendAction
             (case suggestion emp of None \<Rightarrow> None | Some sg \<Rightarrow> Some (Suggestion.action sg)) \<rparr>)"

definition employeeRows :: "Employee list \<Rightarrow> Row list" where
  "employeeRows employees = map employeeRow (filter (\<lambda>emp. status emp \<noteq> ''FIRED'') employees)"


section \<open>The Action Ledger\<close>

text \<open>
  The server side of \<open>POST /api/action\<close> is not among the sources; the client
  (\<open>applyAction\<close> in the API module) only posts the request, returns the response and
  throws on a response that is not ok. The definitions of this section follow the
  specification of the Action Ledger, with the shape of \<open>ActionRecord\<close> taken from the API
  module.
\<close>

text \<open>
  Modelled from the spec: the lifecycle status of a stored employee (the server's employee
  schema is missing from the sources).
\<close>

datatype LifecycleStatus = active | fired

text \<open>
  Modelled from the spec: the authoritative employee record of the data model (the
  storage layer is missing from the sources); the current salary is an amount in the
  currency's smallest unit.
\<close>

record StoredEmployee =
  employeeSsid :: string
  employeeName :: string
  employeeRole :: string
  performanceBand :: PerformanceBand
  experienceBand :: ExperienceBand
  currentSalary :: real
  attributedRevenue :: real
  lifecycleStatus :: LifecycleStatus

text \<open>
  The \<open>details\<close> payload and the \<open>ActionRecord\<close> of the API module, without the storage
  key \<open>_id\<close> and the preformatted strings; the field \<open>note\<close> is \<open>actionNote\<close> here.
\<close>

record Details =
  effect :: string
  previousSalary :: "real option"
  newSalary :: "real option"
  salary :: "real option"
  changePercent :: "real option"

record ActionRecord =
  ssid :: string
  action :: string
  actionNote :: "string option"
  details :: Details
  appliedAt :: string

text \<open>
  Modelled from the spec: the state the ledger works on (missing from the sources), the
  employee records by identifier and the append-only sequence of action records.
\<close>

record Store =
  employees :: "string \<rightharpoonup> StoredEmployee"
  ledger :: "ActionRecord list"

text \<open>
  Modelled from the spec: the error conditions of ApplyAction (the server's handler, which
  raises them, is missing from the sources).
\<close>

datatype ApplyError = NotFound | InvalidAction | InvalidChangePercent

text \<open>
  Modelled from the spec: the single-employee read of the storage layer (missing from the
  sources). An identifier resolves when the store has a record for it whose status is
  active.
\<close>

definition resolveActive :: "Store \<Rightarrow> string \<Rightarrow> StoredEmployee option" where
  "resolveActive st i =
     (case employees st i of
        None \<Rightarrow> None
      | Some e \<Rightarrow> if lifecycleStatus e = active then Some e else None)"

text \<open>
  Modelled from the spec: the server's validation of the action (missing from the sources),
  which recognizes the four kinds by their enum spellings.
\<close>

definition parseAction :: "string \<Rightarrow> DecisionAction option" where
  "parseAction a =
     (if a = ''FIRE'' then Some FIRE
      else if a = ''PROMOTE'' then Some PROMOTE
      else if a = ''DECREASE_SALARY'' then Some DECREASE_SALARY
      else if a = ''NO_CHANGE'' then Some NO_CHANGE
      else None)"

text \<open>
  Modelled from the spec: the salary computation of the server's apply step (missing from
  the sources), \<open>newSalary = currentSalary * (1 + changePercent/100)\<close>, rounded to the
  currency's smallest unit (to the nearest unit, halves upwards).
\<close>

definition roundToUnit :: "real \<Rightarrow> real" where
  "roundToUnit x = of_int (round x)"

definition changedSalary :: "real \<Rightarrow> real \<Rightarrow> real" where
  "changedSalary cur p = roundToUnit (cur * (1 + p / 100))"

text \<open>
  Modelled from the spec: the effect of each action kind on the employee record, with the
  details the ledger entry records (the server's apply step is missing from the sources).
  A salary change needs a percent, and its new salary, as rounded, must not be negative.
  Fields of the details the spec does not assign are absent.
\<close>

definition salaryChange ::
  "string \<Rightarrow> StoredEmployee \<Rightarrow> real option \<Rightarrow> ApplyError + StoredEmployee \<times> Details" where
  "salaryChange eff e pct =
     (case pct of
        None \<Rightarrow> Inl InvalidChangePercent
      | Some p \<Rightarrow>
          if changedSalary (currentSalary e) p < 0 then Inl InvalidChangePercent
          else Inr (e\<lparr>currentSalary := changedSalary (currentSalary e) p\<rparr>,
                    \<lparr> effect = eff,
                      previousSalary = Some (currentSalary e),
                      newSalary = Some (changedSalary (currentSalary e) p),
                      salary = None,
                      changePercent = Some p \<rparr>))"

fun actionEffect ::
  "DecisionAction \<Rightarrow> StoredEmployee \<Rightarrow> real option \<Rightarrow> ApplyError + StoredEmployee \<times> Details" where
  "actionEffect FIRE e pct =
     Inr (e\<lparr>lifecycleStatus := fired\<rparr>,
          \<lparr> effect = ''terminated'', previousSalary = Some (currentSalary e),
            newSalary = None, salary = None, changePercent = None \<rparr>)"
| "actionEffect PROMOTE e pct = salaryChange ''salary increased'' e pct"
| "actionEffect DECREASE_SALARY e pct = salaryChange ''salary decreased'' e pct"
| "actionEffect NO_CHANGE e pct =
     Inr (e,
          \<lparr> effect = ''no action taken'', previousSalary = None,
            newSalary = None, salary = None, changePercent = None \<rparr>)"

text \<open>
  Modelled from the spec: the operation ApplyAction(identifier, action, note, changePercent)
  that the server exposes behind \<open>POST /api/action\<close> (its handler is missing from the
  sources), at time \<open>now\<close>. The error conditions are checked in the order the spec lists
  them. A failure returns the store as it was; a success writes the employee's record and
  appends one ledger entry.
\<close>

definition ApplyAction ::
  "string \<Rightarrow> Store \<Rightarrow> string \<Rightarrow> string \<Rightarrow> string option \<Rightarrow> real option
     \<Rightarrow> (ApplyError + ActionRecord \<times> StoredEmployee) \<times> Store" where
  "ApplyAction now st i a nt pct =
     (case resolveActive st i of
        None \<Rightarrow> (Inl NotFound, st)
      | Some e \<Rightarrow>
          (case parseAction a of
             None \<Rightarrow> (Inl InvalidAction, st)
           | Some act \<Rightarrow>
               (case actionEffect act e pct of
                  Inl err \<Rightarrow> (Inl err, st)
                | Inr (e', d) \<Rightarrow>
                    (let entry = \<lparr> ActionRecord.ssid = i, ActionRecord.action = a, actionNote = nt,
                                     details = d, appliedAt = now \<rparr>
                     in (Inr (entry, e'),
                         st\<lparr> employees := (employees st)(i \<mapsto> e'),
                             ledger := ledger st @ [entry] \<rparr>)))))"




section \<open>Scenarios\<close>

text \<open>
  The employee of the specification's profitability scenario (salary 1,000,000, revenue
  400,000, performance band risk), before any analysis.
\<close>

definition scenarioEmployee :: Employee where
  "scenarioEmployee =
     \<lparr> Employee.ssid = ''E7'', name = ''Ravi'', role = ''Analyst'', performance = risk,
       experience = mid, Employee.salary = Some 1000000, revenue = Some 400000,
       status = ''ACTIVE'', suggestion = None \<rparr>"

text \<open>The store of the specification's ApplyAction scenario: employee E123 earns 800,000.\<close>

definition e123 :: StoredEmployee where
  "e123 =
     \<lparr> employeeSsid = ''E123'', employeeName = ''Asha'', employeeRole = ''Engineer'',
       performanceBand = strong, experienceBand = senior, currentSalary = 800000,
       attributedRevenue = 1500000, lifecycleStatus = active \<rparr>"

definition store123 :: Store where
  "store123 = \<lparr> employees = [''E123'' \<mapsto> e123], ledger = [] \<rparr>"


section \<open>Properties of the front end\<close>

subsection \<open>Action mappings\<close>

lemma toUpperCase_length: "length (toUpperCase s) = length s"
  by (simp add: toUpperCase_def)

lemma toUpperCase_canonical:
  "toUpperCase ''FIRE'' = ''FIRE''"
  "toUpperCase ''PROMOTE'' = ''PROMOTE''"
  "toUpperCase ''DECREASE_SALARY'' = ''DECREASE_SALARY''"
  "toUpperCase ''NO_CHANGE'' = ''NO_CHANGE''"
  by (simp_all add: toUpperCase_def toUpperCaseChar_def)

text \<open>
  C9. The two mappings form a round trip on the four canonical actions. \<open>mapBackendAction\<close>
  is defined on every input, sends an absent action and the empty string to \<open>keep\<close>,
  gives the same result for two strings that differ only in letter case, and sends every
  string that is not, up to case, one of FIRE, PROMOTE, DECREASE_SALARY to \<open>keep\<close>, which
  \<open>mapUIActionToBackend\<close> turns into NO_CHANGE.
\<close>

theorem action_mapping_round_trip:
  "mapUIActionToBackend (mapBackendAction (Some (spelling a))) = a
   \<and> mapBackendAction None = keep
   \<and> mapBackendAction (Some []) = keep
   \<and> mapUIActionToBackend keep = NO_CHANGE
   \<and> (toUpperCase s = toUpperCase t \<longrightarrow>
        mapBackendAction (Some s) = mapBackendAction (Some t))
   \<and> (toUpperCase s \<notin> {''FIRE'', ''PROMOTE'', ''DECREASE_SALARY''} \<longrightarrow>
        mapBackendAction (Some s) = keep)"
proof (intro conjI impI)
  show "mapUIActionToBackend (mapBackendAction (Some (spelling a))) = a"
    by (cases a) (simp_all add: mapBackendAction_def toUpperCase_canonical)
next
  show "mapBackendAction None = keep"
    by (simp add: mapBackendAction_def)
next
  show "mapBackendAction (Some []) = keep"
    by (simp add: mapBackendAction_def)
next
  show "mapUIActionToBackend keep = NO_CHANGE"
    by simp
next
  assume eq: "toUpperCase s = toUpperCase t"
  then have "length s = length t"
    using toUpperCase_length by metis
  then have "(s = []) = (t = [])"
    by auto
  with eq show "mapBackendAction (Some s) = mapBackendAction (Some t)"
    by (simp add: mapBackendAction_def)
next
  assume "toUpperCase s \<notin> {''FIRE'', ''PROMOTE'', ''DECREASE_SALARY''}"
  then show "mapBackendAction (Some s) = keep"
    by (simp add: mapBackendAction_def)
qed

theorem action_mapping_round_trip_witness:
  "toUpperCase ''Promote'' = toUpperCase ''pROMOTE''
   \<and> mapBackendAction (Some ''Promote'') = mapBackendAction (Some ''pROMOTE'')
   \<and> mapBackendAction (Some ''pROMOTE'') = increase
   \<and> toUpperCase ''raise'' \<notin> {''FIRE'', ''PROMOTE'', ''DECREASE_SALARY''}
   \<and> mapBackendAction (Some ''raise'') = keep"
proof -
  have h1: "toUpperCase ''Promote'' = toUpperCase ''pROMOTE''"
    by (simp add: toUpperCase_def toUpperCaseChar_def)
  have h2: "toUpperCase ''raise'' \<notin> {''FIRE'', ''PROMOTE'', ''DECREASE_SALARY''}"
    by (simp add: toUpperCase_def toUpperCaseChar_def)
  have h3: "mapBackendAction (Some ''pROMOTE'') = increase"
    by (simp add: mapBackendAction_def toUpperCase_def toUpperCaseChar_def)
  from action_mapping_round_trip [of PROMOTE "''Promote''" "''pROMOTE''"]
  have a: "mapBackendAction (Some ''Promote'') = mapBackendAction (Some ''pROMOTE'')"
    using h1 by blast
  from action_mapping_round_trip [of PROMOTE "''raise''" "''raise''"]
  have b: "mapBackendAction (Some ''raise'') = keep"
    using h2 by blast
  from h1 h2 h3 a b show ?thesis by blast
qed

subsection \<open>The organization summary\<close>

lemma orZero_simps:
  "orZero None = 0" "orZero (Some r) = r"
  by (simp_all add: orZero_def)


lemma truthy_toNumber: "truthy v \<Longrightarrow> toNumber v = Num (orZero v)"
  by (cases v) (simp_all add: truthy_def orZero_def toNumber_def)





subsection \<open>Profit and margin\<close>



text \<open>
  The type \<open>Employee\<close> makes \<open>salary\<close> a required number. An object that lacks it, has no
  suggestion and has a non-zero revenue is outside that type; for it the branch without a
  suggestion subtracts \<open>undefined\<close> and the margin is \<open>NaN\<close>, while the profitability of
  the same object counts the salary as 0.
\<close>

lemma selectedDecision_salary_absent:
  assumes "suggestion e = None" and "Employee.salary e = None" and "truthy (revenue e)"
  shows "Decision.margin (selectedDecision (Some e)) = NaN"
  using assms
  by (simp add: selectedDecision_def noAnalysis_def truthy_toNumber) (simp add: toNumber_def)



subsection \<open>Fired employees\<close>

text \<open>
  C2. A fired employee is to be excluded from every aggregate total. The employee table
  leaves out the employees whose status is FIRED, but \<open>orgSummary\<close> reduces over the whole
  list: for a list holding one fired employee with salary 1,000,000 and revenue 400,000
  the table is empty, and the totals count that employee.
\<close>

theorem fired_employee_in_totals:
  "employeeRows [scenarioEmployee\<lparr>status := ''FIRED''\<rparr>] = []
   \<and> totalSalary (orgSummary [scenarioEmployee\<lparr>status := ''FIRED''\<rparr>]) = 1000000
   \<and> totalRevenue (orgSummary [scenarioEmployee\<lparr>status := ''FIRED''\<rparr>]) = 400000
   \<and> netProfit (orgSummary [scenarioEmployee\<lparr>status := ''FIRED''\<rparr>]) = - 600000
   \<and> atRisk (orgSummary [scenarioEmployee\<lparr>status := ''FIRED''\<rparr>]) = 1"
  by (simp add: employeeRows_def orgSummary_def orgSummary_step_def scenarioEmployee_def
      orZero_simps Let_def)


section \<open>Properties of the Action Ledger\<close>

lemma parseAction_spelling: "parseAction (spelling act) = Some act"
  by (cases act) (simp_all add: parseAction_def)

lemma roundToUnit_near: "\<bar>roundToUnit x - x\<bar> \<le> 1 / 2"
  unfolding roundToUnit_def using of_int_round_abs_le [of x] by simp

lemma resolveActive_store123: "resolveActive store123 ''E123'' = Some e123"
  by (simp add: resolveActive_def store123_def e123_def)

text \<open>
  C5. An ApplyAction with action DECREASE_SALARY or PROMOTE and a percent \<open>p\<close>, on an
  active employee whose new salary is not negative, succeeds: the employee's salary becomes
  \<open>currentSalary * (1 + p/100)\<close> rounded to a whole unit (an integer, at most half a unit
  from the exact product), and the one ledger entry appended records the previous salary,
  the new salary, the percent and the effect description. The scenario of the
  specification (PROMOTE by 10 percent on 800,000) is the witness.
\<close>

theorem ApplyAction_salary_change:
  assumes "resolveActive st i = Some e"
    and "act = PROMOTE \<or> act = DECREASE_SALARY"
    and "0 \<le> changedSalary (currentSalary e) p"
  shows "let new = changedSalary (currentSalary e) p;
             e' = e\<lparr>currentSalary := new\<rparr>;
             entry = \<lparr> ActionRecord.ssid = i, ActionRecord.action = spelling act,
                       actionNote = nt,
                       details = \<lparr> effect = (if act = PROMOTE then ''salary increased''
                                               else ''salary decreased''),
                                   previousSalary = Some (currentSalary e),
                                   newSalary = Some new,
                                   salary = None,
                                   changePercent = Some p \<rparr>,
                       appliedAt = now \<rparr>
         in ApplyAction now st i (spelling act) nt (Some p)
              = (Inr (entry, e'),
                 st\<lparr> employees := (employees st)(i \<mapsto> e'), ledger := ledger st @ [entry] \<rparr>)
            \<and> new = of_int (round (currentSalary e * (1 + p / 100)))
            \<and> \<bar>new - currentSalary e * (1 + p / 100)\<bar> \<le> 1 / 2"
proof -
  have eff: "actionEffect act e (Some p)
      = salaryChange (if act = PROMOTE then ''salary increased'' else ''salary decreased'')
          e (Some p)"
    using assms(2) by auto
  have near: "\<bar>changedSalary (currentSalary e) p - currentSalary e * (1 + p / 100)\<bar> \<le> 1 / 2"
    unfolding changedSalary_def by (rule roundToUnit_near)
  from assms(3) have nonneg: "\<not> changedSalary (currentSalary e) p < 0"
    by simp
  show ?thesis
    using near
    by (simp add: ApplyAction_def assms(1) parseAction_spelling eff salaryChange_def nonneg
        Let_def)
       (simp add: changedSalary_def roundToUnit_def)
qed

theorem ApplyAction_salary_change_witness:
  "resolveActive store123 ''E123'' = Some e123
   \<and> (PROMOTE = PROMOTE \<or> PROMOTE = DECREASE_SALARY)
   \<and> 0 \<le> changedSalary (currentSalary e123) 10
   \<and> ApplyAction ''2024-01-01'' store123 ''E123'' ''PROMOTE'' None (Some 10)
       = (Inr (\<lparr> ActionRecord.ssid = ''E123'', ActionRecord.action = ''PROMOTE'',
                  actionNote = None,
                  details = \<lparr> effect = ''salary increased'', previousSalary = Some 800000,
                              newSalary = Some 880000, salary = None,
                              changePercent = Some 10 \<rparr>,
                  appliedAt = ''2024-01-01'' \<rparr>,
                e123\<lparr>currentSalary := 880000\<rparr>),
          store123\<lparr> employees := (employees store123)(''E123'' \<mapsto> e123\<lparr>currentSalary := 880000\<rparr>),
                    ledger := ledger store123
                      @ [\<lparr> ActionRecord.ssid = ''E123'', ActionRecord.action = ''PROMOTE'',
                           actionNote = None,
                           details = \<lparr> effect = ''salary increased'',
                                       previousSalary = Some 800000,
                                       newSalary = Some 880000, salary = None,
                                       changePercent = Some 10 \<rparr>,
                           appliedAt = ''2024-01-01'' \<rparr>] \<rparr>)"
proof -
  note r = resolveActive_store123
  have c: "changedSalary (currentSalary e123) 10 = 880000"
    by (simp add: changedSalary_def roundToUnit_def e123_def)
  have n: "0 \<le> changedSalary (currentSalary e123) 10"
    by (simp add: c)
  have s: "currentSalary e123 = 800000"
    by (simp add: e123_def)
  from ApplyAction_salary_change [where act = PROMOTE and now = "''2024-01-01''"
      and nt = None, OF r _ n] r n
  show ?thesis
    by (simp add: Let_def c s)
qed




end
